theory Spec2Isabelle
  imports Main "HOL-Library.Monad_Syntax"
begin

section \<open>Python strings\<close>

text \<open>
  A Python \<open>str\<close> is modelled as a HOL \<open>string\<close>, one \<open>char\<close> per code point, which
  covers the code points below 256. On that range \<open>str.isspace\<close> (used by \<open>str.strip\<close>
  and by the regular expression class \<open>\s\<close>) holds for the code points 9 to 13, 28 to 32,
  133 and 160, and \<open>\d\<close> matches the ASCII digits only.
\<close>

definition isspace :: "char \<Rightarrow> bool" where
  "isspace c =
     (let n = (of_char c :: nat)
      in (9 \<le> n \<and> n \<le> 13) \<or> (28 \<le> n \<and> n \<le> 32) \<or> n = 133 \<or> n = 160)"

definition lstrip :: "string \<Rightarrow> string" where
  "lstrip s = dropWhile isspace s"

definition rstrip :: "string \<Rightarrow> string" where
  "rstrip s = rev (dropWhile isspace (rev s))"

definition strip :: "string \<Rightarrow> string" where
  "strip s = rstrip (lstrip s)"


definition startswith :: "string \<Rightarrow> string \<Rightarrow> bool" where
  "startswith s p = (take (length p) s = p)"


text \<open>\<open>sub in s\<close>: the substring test, also XPath's \<open>contains(s, sub)\<close>.\<close>

fun py_in :: "string \<Rightarrow> string \<Rightarrow> bool" where
  "py_in sub [] = (sub = [])"
| "py_in sub (c # cs) = (startswith (c # cs) sub \<or> py_in sub cs)"

text \<open>\<open>\d\<close>, \<open>[A-Za-z]\<close> and \<open>[1-9]\<close>.\<close>

definition isdigit :: "char \<Rightarrow> bool" where
  "isdigit c = (c \<in> set ''0123456789'')"

definition isalpha_ascii :: "char \<Rightarrow> bool" where
  "isalpha_ascii c =
     (c \<in> set ''abcdefghijklmnopqrstuvwxyz'' \<or> c \<in> set ''ABCDEFGHIJKLMNOPQRSTUVWXYZ'')"

definition isdigit19 :: "char \<Rightarrow> bool" where
  "isdigit19 c = (c \<in> set ''123456789'')"

text \<open>\<open>int(s)\<close> on a string of ASCII digits, and the formats \<open>:02d\<close> and \<open>%04d\<close>.\<close>

definition digit_val :: "char \<Rightarrow> nat" where
  "digit_val c = of_char c - 48"

definition py_int :: "string \<Rightarrow> nat" where
  "py_int s = foldl (\<lambda>n c. 10 * n + digit_val c) 0 s"

definition digit_char :: "nat \<Rightarrow> char" where
  "digit_char n = char_of (48 + n)"

function str_nat :: "nat \<Rightarrow> string" where
  "str_nat n = (if n < 10 then [digit_char n] else str_nat (n div 10) @ [digit_char (n mod 10)])"
  by pat_completeness auto
termination
  by (relation "measure id") auto

definition zfill :: "nat \<Rightarrow> string \<Rightarrow> string" where
  "zfill w s = replicate (w - length s) CHR ''0'' @ s"

definition fmt02d :: "nat \<Rightarrow> string" where
  "fmt02d n = zfill 2 (str_nat n)"

definition fmt04d :: "nat \<Rightarrow> string" where
  "fmt04d n = zfill 4 (str_nat n)"

text \<open>\<open>str.lower\<close> on ASCII letters, as the case-insensitive month match needs it.\<close>

definition lower_ascii :: "char \<Rightarrow> char" where
  "lower_ascii c =
     (if c \<in> set ''ABCDEFGHIJKLMNOPQRSTUVWXYZ'' then char_of (of_char c + (32::nat)) else c)"

text \<open>
  \<open>str.lower\<close> on the whole range: the ASCII capitals and the capitals from 192 to 222
  (215 is the multiplication sign) move up by 32.
\<close>

definition py_lower :: "char \<Rightarrow> char" where
  "py_lower c =
     (let n = (of_char c :: nat)
      in if (65 \<le> n \<and> n \<le> 90) \<or> (192 \<le> n \<and> n \<le> 222 \<and> n \<noteq> 215) then char_of (n + 32) else c)"

text \<open>
  \<open>\w\<close>: the alphanumeric characters (\<open>str.isalnum\<close>) and the underscore. Below 256
  these are the ASCII letters and digits, the letters from 192 on except the two
  arithmetic signs 215 and 247, and the code points 170, 178, 179, 181, 185, 186, 188, 189
  and 190.
\<close>

definition isword :: "char \<Rightarrow> bool" where
  "isword c =
     (let n = (of_char c :: nat)
      in (48 \<le> n \<and> n \<le> 57) \<or> (65 \<le> n \<and> n \<le> 90) \<or> n = 95 \<or> (97 \<le> n \<and> n \<le> 122)
         \<or> n \<in> set [170, 178, 179, 181, 185, 186, 188, 189, 190]
         \<or> (192 \<le> n \<and> n \<noteq> 215 \<and> n \<noteq> 247))"

text \<open>
  \<open>re.sub(r"\s+", " ", s)\<close>: every run of white space becomes one blank. The flag says
  that the previous character was white space.
\<close>

fun collapse_spaces :: "bool \<Rightarrow> string \<Rightarrow> string" where
  "collapse_spaces prev [] = []"
| "collapse_spaces prev (c # cs) =
     (if isspace c then (if prev then collapse_spaces True cs else CHR '' '' # collapse_spaces True cs)
      else c # collapse_spaces False cs)"

subsection \<open>Pieces of regular expressions\<close>

text \<open>
  \<open>\d{lo,hi}\<close> in front of a character that is not a digit (or of the end): the group is
  the whole run of digits, which must have between \<open>lo\<close> and \<open>hi\<close> characters. The result
  is the group and the rest of the string.
\<close>

definition digits_run :: "nat \<Rightarrow> nat \<Rightarrow> string \<Rightarrow> (string \<times> string) option" where
  "digits_run lo hi s =
     (let d = takeWhile isdigit s
      in if lo \<le> length d \<and> length d \<le> hi then Some (d, dropWhile isdigit s) else None)"

text \<open>A literal character.\<close>

fun literal :: "char \<Rightarrow> string \<Rightarrow> string option" where
  "literal c [] = None"
| "literal c (x # xs) = (if x = c then Some xs else None)"

text \<open>\<open>\s+\<close> in front of something that does not start with white space.\<close>

definition spaces1 :: "string \<Rightarrow> string option" where
  "spaces1 s = (if s \<noteq> [] \<and> isspace (hd s) then Some (dropWhile isspace s) else None)"

text \<open>\<open>sep.join(xs)\<close>.\<close>

fun join :: "string \<Rightarrow> string list \<Rightarrow> string" where
  "join sep [] = []"
| "join sep [x] = x"
| "join sep (x # y # ys) = x @ sep @ join sep (y # ys)"

text \<open>Truth value of an \<open>Optional[str]\<close>: \<open>None\<close> and the empty string are false.\<close>

fun truthy :: "string option \<Rightarrow> bool" where
  "truthy None = False"
| "truthy (Some s) = (s \<noteq> [])"

section \<open>Exceptions\<close>

text \<open>
  A raised exception is the left injection of the result. \<open>ValueError\<close> and
  \<open>IndexError\<close> are the built-in exceptions the service raises itself;
  \<open>ExternalError\<close> stands for whatever a collaborator outside the service raises
  (the page fetch and the not-found guard of the base class).
\<close>

datatype error = ValueError string | IndexError | ExternalError string

definition bind_result :: "error + 'a \<Rightarrow> ('a \<Rightarrow> error + 'b) \<Rightarrow> error + 'b" where
  "bind_result r f = (case r of Inl e \<Rightarrow> Inl e | Inr v \<Rightarrow> f v)"

section \<open>Python values\<close>

text \<open>The values of the dictionaries the service returns.\<close>

datatype pyval = PNone | PStr string | PList "pyval list" | PDict "(string \<times> pyval) list"

fun opt_str :: "string option \<Rightarrow> pyval" where
  "opt_str None = PNone"
| "opt_str (Some s) = PStr s"

text \<open>\<open>d[k]\<close> on a dictionary value, for reading results.\<close>

fun pget :: "pyval \<Rightarrow> string \<Rightarrow> pyval option" where
  "pget (PDict kvs) k = map_of kvs k"
| "pget v k = None"

text \<open>\<open>xs[i]\<close>: a negative index counts from the end, an index out of range raises.\<close>

definition py_index :: "'a list \<Rightarrow> int \<Rightarrow> error + 'a" where
  "py_index xs i =
     (let n = int (length xs); j = (if i < 0 then i + n else i)
      in if 0 \<le> j \<and> j < n then Inr (xs ! nat j) else Inl IndexError)"

section \<open>Documents and the XPath queries of the service\<close>

text \<open>
  A parsed page in the XPath data model: an element has a tag, attributes and children in
  document order; a child is an element or a text node. The page is its root element.
\<close>

datatype node = Elem string "(string \<times> string) list" "node list" | Text string

fun is_elem :: "string \<Rightarrow> node \<Rightarrow> bool" where
  "is_elem t (Elem t' a ks) = (t' = t)"
| "is_elem t (Text s) = False"

fun children :: "node \<Rightarrow> node list" where
  "children (Elem t a ks) = ks"
| "children (Text s) = []"

text \<open>The value of attribute \<open>@name\<close>, if the element has it.\<close>

fun attr :: "string \<Rightarrow> node \<Rightarrow> string option" where
  "attr name (Elem t a ks) = map_of a name"
| "attr name (Text s) = None"

text \<open>\<open>contains(@name, sub)\<close>: a missing attribute has the string value \<open>''\<close>.\<close>

definition attr_contains :: "string \<Rightarrow> string \<Rightarrow> node \<Rightarrow> bool" where
  "attr_contains name sub n = py_in sub (case attr name n of None \<Rightarrow> [] | Some v \<Rightarrow> v)"

text \<open>All proper descendants, in document order.\<close>

fun descendants :: "node \<Rightarrow> node list" where
  "descendants (Text s) = []"
| "descendants (Elem t a ks) = concat (map (\<lambda>k. k # descendants k) ks)"

text \<open>\<open>//table\<close>, evaluated from the document root.\<close>

definition xpath_tables :: "node \<Rightarrow> node list" where
  "xpath_tables doc = filter (is_elem ''table'') (doc # descendants doc)"

text \<open>
  \<open>.//thead//th\<close>: the \<open>th\<close> elements below a \<open>thead\<close> below the context node, in
  document order. The flag says that the node whose children are visited is such a
  \<open>thead\<close> or lies below one.
\<close>

fun ths_below :: "bool \<Rightarrow> node \<Rightarrow> node list" where
  "ths_below inside (Text s) = []"
| "ths_below inside (Elem t a ks) =
     concat (map (\<lambda>k. (if inside \<and> is_elem ''th'' k then [k] else [])
                        @ ths_below (inside \<or> is_elem ''thead'' k) k) ks)"

definition xpath_thead_th :: "node \<Rightarrow> node list" where
  "xpath_thead_th ctx = ths_below False ctx"

definition items_or_responsive :: "node \<Rightarrow> bool" where
  "items_or_responsive t =
     (attr_contains ''class'' ''items'' t \<or> attr_contains ''class'' ''responsive'' t)"


text \<open>
  \<open>//table[contains(@class,'items') or contains(@class,'responsive')][.//thead//th]\<close>,
  the first query of \<open>_get_injuries_table\<close>.
\<close>

definition xpath_marked_header_tables :: "node \<Rightarrow> node list" where
  "xpath_marked_header_tables doc =
     filter (\<lambda>t. xpath_thead_th t \<noteq> []) (filter items_or_responsive (xpath_tables doc))"

text \<open>\<open>//table[.//thead//th]\<close>, its fallback query.\<close>

definition xpath_header_tables :: "node \<Rightarrow> node list" where
  "xpath_header_tables doc = filter (\<lambda>t. xpath_thead_th t \<noteq> []) (xpath_tables doc)"

text \<open>\<open>./td\<close>: the \<open>td\<close> children.\<close>

definition xpath_child_td :: "node \<Rightarrow> node list" where
  "xpath_child_td ctx = filter (is_elem ''td'') (children ctx)"

text \<open>\<open>.//text()\<close>: the text nodes below the context node.\<close>

fun text_of :: "node \<Rightarrow> string option" where
  "text_of (Text s) = Some s"
| "text_of (Elem t a ks) = None"

definition xpath_texts :: "node \<Rightarrow> string list" where
  "xpath_texts ctx = List.map_filter text_of (descendants ctx)"

text \<open>\<open>.//a/@href\<close>.\<close>

definition xpath_a_hrefs :: "node \<Rightarrow> string list" where
  "xpath_a_hrefs ctx = List.map_filter (attr ''href'') (filter (is_elem ''a'') (descendants ctx))"

text \<open>
  The player-profile anchors
  \<open>.//a[contains(@class,'spielprofil') or contains(@href,'profil/spieler')]\<close>, their
  \<open>/@href\<close> and their \<open>//text()\<close>.
\<close>

definition is_profile_a :: "node \<Rightarrow> bool" where
  "is_profile_a n =
     (is_elem ''a'' n
      \<and> (attr_contains ''class'' ''spielprofil'' n \<or> attr_contains ''href'' ''profil/spieler'' n))"

definition xpath_profile_hrefs :: "node \<Rightarrow> string list" where
  "xpath_profile_hrefs ctx = List.map_filter (attr ''href'') (filter is_profile_a (descendants ctx))"

text \<open>
  The text nodes that have an ancestor satisfying \<open>p\<close>, in document order, each once.
  The flag says that the visited node satisfies \<open>p\<close> or lies below a node that does.
\<close>

fun texts_below :: "(node \<Rightarrow> bool) \<Rightarrow> bool \<Rightarrow> node \<Rightarrow> string list" where
  "texts_below p inside (Text s) = (if inside then [s] else [])"
| "texts_below p inside (Elem t a ks) =
     concat (map (\<lambda>k. texts_below p (inside \<or> p k) k) ks)"

definition xpath_profile_texts :: "node \<Rightarrow> string list" where
  "xpath_profile_texts ctx = texts_below is_profile_a False ctx"

text \<open>\<open>.//a/@title | .//img/@alt\<close>, a union in document order.\<close>

definition title_or_alt :: "node \<Rightarrow> string option" where
  "title_or_alt n =
     (if is_elem ''a'' n then attr ''title'' n
      else if is_elem ''img'' n then attr ''alt'' n else None)"

definition xpath_title_or_alt :: "node \<Rightarrow> string list" where
  "xpath_title_or_alt ctx = List.map_filter title_or_alt (descendants ctx)"

text \<open>
  \<open>.//td[contains(@class,'links')][1]\<close>: under every node below (or at) the context
  node, the first \<open>td\<close> child whose class contains \<open>links\<close>; the results in document
  order. Each result comes with its following siblings, which is what
  \<open>itersiblings\<close> walks. The flag says that an earlier sibling has matched.
\<close>

definition is_links_td :: "node \<Rightarrow> bool" where
  "is_links_td n = (is_elem ''td'' n \<and> attr_contains ''class'' ''links'' n)"

fun links_first :: "node \<Rightarrow> (node \<times> node list) list"
  and links_first_kids :: "bool \<Rightarrow> node list \<Rightarrow> (node \<times> node list) list" where
  "links_first (Text s) = []"
| "links_first (Elem t a ks) = links_first_kids False ks"
| "links_first_kids found [] = []"
| "links_first_kids found (k # ks) =
     (if \<not> found \<and> is_links_td k then [(k, ks)] else [])
     @ links_first k @ links_first_kids (found \<or> is_links_td k) ks"

definition xpath_links_first :: "node \<Rightarrow> (node \<times> node list) list" where
  "xpath_links_first ctx = links_first ctx"

text \<open>\<open>el.itersiblings(tag="td")\<close>, given the following siblings of \<open>el\<close>.\<close>

definition itersiblings_td :: "node list \<Rightarrow> node list" where
  "itersiblings_td following = filter (is_elem ''td'') following"

text \<open>
  \<open>.//tbody/tr[td]\<close>: the \<open>tr\<close> children, with a \<open>td\<close> child, of the \<open>tbody\<close>
  elements below the context node, in document order.
\<close>

fun rows_within :: "node \<Rightarrow> node list" where
  "rows_within (Text s) = []"
| "rows_within (Elem t a ks) =
     concat (map (\<lambda>k. (if t = ''tbody'' \<and> is_elem ''tr'' k \<and> xpath_child_td k \<noteq> [] then [k] else [])
                        @ rows_within k) ks)"

definition xpath_tbody_rows :: "node \<Rightarrow> node list" where
  "xpath_tbody_rows ctx = concat (map rows_within (children ctx))"

text \<open>\<open>//h1//text()\<close> and \<open>//title//text()\<close>, from the document root.\<close>

definition xpath_texts_under :: "string \<Rightarrow> node \<Rightarrow> string list" where
  "xpath_texts_under t doc = texts_below (is_elem t) (is_elem t doc) doc"

text \<open>
  \<open>//nav//ol//li[last()]//a//text() | //nav//ol//li[last()]//text()\<close>. The second
  operand contains the first, so the union is the text below the \<open>li\<close> elements that are
  the last \<open>li\<close> child of their parent, the parent being an \<open>ol\<close> below a \<open>nav\<close> or
  lying below such an \<open>ol\<close>. The flags describe the parent of the visited children: it is
  a \<open>nav\<close> or below one; it is such an \<open>ol\<close> or below one; it is such an \<open>li\<close> or below
  one.
\<close>

fun crumb_node :: "bool \<Rightarrow> bool \<Rightarrow> bool \<Rightarrow> node \<Rightarrow> string list"
  and crumb_kids :: "bool \<Rightarrow> bool \<Rightarrow> bool \<Rightarrow> node list \<Rightarrow> string list" where
  "crumb_node in_nav in_ol in_li (Text s) = (if in_li then [s] else [])"
| "crumb_node in_nav in_ol in_li (Elem t a ks) = crumb_kids in_nav in_ol in_li ks"
| "crumb_kids in_nav in_ol in_li [] = []"
| "crumb_kids in_nav in_ol in_li (k # ks) =
     crumb_node (in_nav \<or> is_elem ''nav'' k)
                (in_ol \<or> (in_nav \<and> is_elem ''ol'' k))
                (in_li \<or> (in_ol \<and> is_elem ''li'' k \<and> filter (is_elem ''li'') ks = []))
                k
     @ crumb_kids in_nav in_ol in_li ks"

definition xpath_crumb_texts :: "node \<Rightarrow> string list" where
  "xpath_crumb_texts doc = crumb_node (is_elem ''nav'' doc) False False doc"

text \<open>\<open>//link[@rel='canonical']/@href | //meta[@property='og:url']/@content\<close>.\<close>

definition canonical_attr :: "node \<Rightarrow> string option" where
  "canonical_attr n =
     (if is_elem ''link'' n \<and> attr ''rel'' n = Some ''canonical'' then attr ''href'' n
      else if is_elem ''meta'' n \<and> attr ''property'' n = Some ''og:url'' then attr ''content'' n
      else None)"

definition xpath_canonical :: "node \<Rightarrow> string list" where
  "xpath_canonical doc = List.map_filter canonical_attr (doc # descendants doc)"

section \<open>The service object and its collaborators\<close>

text \<open>
  The fields of \<open>TransfermarktLeagueInjuries\<close> that the service reads and writes:
  \<open>URL\<close> is its own, \<open>page\<close> and \<open>response\<close> come from the base class.
\<close>

record service =
  URL :: string
  page :: node
  response :: "string \<rightharpoonup> pyval"

text \<open>
  What the service calls and the sources do not contain, as parameters:
  \<^item> \<open>request_url_page\<close> of the base class, the fetch of the page at a URL;
  \<^item> \<open>raise_exception_if_not_found\<close> of the base class, given the XPath and the object;
    \<open>None\<close> when it returns, the exception when it raises;
  \<^item> \<open>extract_from_url\<close> of \<open>app.utils.utils\<close>;
  \<^item> \<open>unicodedata.normalize("NFKD", s)\<close> and \<open>unicodedata.combining(ch)\<close>;
  \<^item> the check \<open>urlsplit\<close> makes of a network location with both brackets (the syntax
    of IPv6 and IPvFuture addresses); \<open>None\<close> when it passes;
  \<^item> \<open>datetime.now(timezone.utc).isoformat()\<close>, the clock.
\<close>

record env =
  request_url_page :: "string \<Rightarrow> error + node"
  raise_exception_if_not_found :: "string \<Rightarrow> service \<Rightarrow> error option"
  extract_from_url :: "string option \<Rightarrow> string option"
  normalize_NFKD :: "string \<Rightarrow> string"
  combining :: "char \<Rightarrow> nat"
  check_bracketed_netloc :: "string \<Rightarrow> error option"
  utcnow_isoformat :: string

section \<open>\<open>urllib.parse\<close>\<close>











section \<open>The league injuries service\<close>

subsection \<open>Locating the table\<close>

text \<open>\<open>_get_injuries_table\<close> (Isabelle names cannot start with an underscore).\<close>

definition get_injuries_table :: "node \<Rightarrow> error + node" where
  "get_injuries_table doc =
     (let candidates = xpath_marked_header_tables doc;
          candidates = (if candidates = [] then xpath_header_tables doc else candidates)
      in if candidates = [] then Inl (ValueError ''Injuries table not found on the page.'')
         else Inr (hd candidates))"

subsection \<open>Date normalizer\<close>

text \<open>
  \<open>re.match(r"^\d{4}-\d{2}-\d{2}$", s)\<close>. The string has been stripped, so \<open>$\<close> can only
  match at its very end (a final newline would have been stripped).
\<close>

definition match_iso :: "string \<Rightarrow> bool" where
  "match_iso s =
     (do {
        (y, r1) \<leftarrow> digits_run 4 4 s;
        r2 \<leftarrow> literal CHR ''-'' r1;
        (m, r3) \<leftarrow> digits_run 2 2 r2;
        r4 \<leftarrow> literal CHR ''-'' r3;
        (d, r5) \<leftarrow> digits_run 2 2 r4;
        if r5 = [] then Some () else None
      } \<noteq> None)"

text \<open>\<open>re.match(r"^(\d{1,2})\.(\d{1,2})\.(\d{4})$", s)\<close> with its groups \<open>(d, mo, y)\<close>.\<close>

definition match_dot :: "string \<Rightarrow> (string \<times> string \<times> string) option" where
  "match_dot s =
     do {
       (d, r1) \<leftarrow> digits_run 1 2 s;
       r2 \<leftarrow> literal CHR ''.'' r1;
       (mo, r3) \<leftarrow> digits_run 1 2 r2;
       r4 \<leftarrow> literal CHR ''.'' r3;
       (y, r5) \<leftarrow> digits_run 4 4 r4;
       if r5 = [] then Some (d, mo, y) else None
     }"

text \<open>\<open>re.match(r"^(\d{1,2})/(\d{1,2})/(\d{2,4})$", s)\<close> with its groups \<open>(d, mo, y)\<close>.\<close>

definition match_slash :: "string \<Rightarrow> (string \<times> string \<times> string) option" where
  "match_slash s =
     do {
       (d, r1) \<leftarrow> digits_run 1 2 s;
       r2 \<leftarrow> literal CHR ''/'' r1;
       (mo, r3) \<leftarrow> digits_run 1 2 r2;
       r4 \<leftarrow> literal CHR ''/'' r3;
       (y, r5) \<leftarrow> digits_run 2 4 r4;
       if r5 = [] then Some (d, mo, y) else None
     }"

text \<open>
  \<open>datetime.strptime(s, "%b %d, %Y")\<close> in the C locale. The library compiles the format
  to the regular expression
  \<open>(jan|feb|...|dec)\s+(3[0-1]|[1-2]\d|0[1-9]|[1-9]| [1-9]),\s+(\d\d\d\d)\<close>, matched
  ignoring case at the start of the string, and rejects a match that does not reach the
  end of the string. The day must be followed by a comma, so its alternatives can be
  decided on the digits alone, and the alternative with a leading blank reads the same day
  as \<open>\s+\<close> taking that blank. The date must exist (years start at 1). The result is
  year, month and day.
\<close>

definition month_abbr :: "string list" where
  "month_abbr = [''jan'', ''feb'', ''mar'', ''apr'', ''may'', ''jun'',
                 ''jul'', ''aug'', ''sep'', ''oct'', ''nov'', ''dec'']"

fun index_of :: "'a \<Rightarrow> 'a list \<Rightarrow> nat option" where
  "index_of x [] = None"
| "index_of x (y # ys) = (if x = y then Some 0 else map_option Suc (index_of x ys))"

definition month_token :: "string \<Rightarrow> (nat \<times> string) option" where
  "month_token s =
     (case index_of (map lower_ascii (take 3 s)) month_abbr of
        None \<Rightarrow> None
      | Some i \<Rightarrow> Some (Suc i, drop 3 s))"

fun day_token :: "string \<Rightarrow> (string \<times> string) option" where
  "day_token (a # b # r) =
     (if (a = CHR ''3'' \<and> (b = CHR ''0'' \<or> b = CHR ''1''))
         \<or> ((a = CHR ''1'' \<or> a = CHR ''2'') \<and> isdigit b)
         \<or> (a = CHR ''0'' \<and> isdigit19 b)
      then Some ([a, b], r)
      else if isdigit19 a then Some ([a], b # r) else None)"
| "day_token [a] = (if isdigit19 a then Some ([a], []) else None)"
| "day_token [] = None"

definition year_token :: "string \<Rightarrow> (string \<times> string) option" where
  "year_token s =
     (if 4 \<le> length s \<and> list_all isdigit (take 4 s) then Some (take 4 s, drop 4 s) else None)"

definition is_leap :: "nat \<Rightarrow> bool" where
  "is_leap y = (y mod 4 = 0 \<and> (y mod 100 \<noteq> 0 \<or> y mod 400 = 0))"

definition days_in_month :: "nat \<Rightarrow> nat \<Rightarrow> nat" where
  "days_in_month y m =
     (if m = 2 then (if is_leap y then 29 else 28)
      else if m = 4 \<or> m = 6 \<or> m = 9 \<or> m = 11 then 30 else 31)"

definition strptime_b_d_Y :: "string \<Rightarrow> (nat \<times> nat \<times> nat) option" where
  "strptime_b_d_Y s =
     do {
       (mo, r1) \<leftarrow> month_token s;
       r2 \<leftarrow> spaces1 r1;
       (d, r3) \<leftarrow> day_token r2;
       r4 \<leftarrow> literal CHR '','' r3;
       r5 \<leftarrow> spaces1 r4;
       (y, r6) \<leftarrow> year_token r5;
       if r6 = [] \<and> 1 \<le> py_int y \<and> py_int d \<le> days_in_month (py_int y) mo
       then Some (py_int y, mo, py_int d) else None
     }"

text \<open>\<open>.strftime("%Y-%m-%d")\<close>, with the year as four digits.\<close>

definition strftime_Y_m_d :: "nat \<times> nat \<times> nat \<Rightarrow> string" where
  "strftime_Y_m_d date =
     (case date of (y, m, d) \<Rightarrow> fmt04d y @ ''-'' @ fmt02d m @ ''-'' @ fmt02d d)"

text \<open>\<open>re.sub(r"^[A-Za-z]{3},\s*", "", s)\<close>.\<close>

definition strip_weekday :: "string \<Rightarrow> string" where
  "strip_weekday s =
     (if 4 \<le> length s \<and> list_all isalpha_ascii (take 3 s) \<and> s ! 3 = CHR '',''
      then dropWhile isspace (drop 4 s) else s)"

text \<open>
  \<open>_normalize_date\<close>. Both \<open>strptime\<close> calls sit in a \<open>try\<close> that catches every
  exception, and nothing else in the body can raise, so the result is a plain option.
\<close>

definition normalize_date :: "string option \<Rightarrow> string option" where
  "normalize_date so =
     (case so of
        None \<Rightarrow> None
      | Some s0 \<Rightarrow>
          if s0 = [] \<or> s0 \<in> set [''-'', ''?'', ''unknown'', ''Unknown''] then None
          else
            let s = strip s0 in
            if match_iso s then Some s
            else
              case match_dot s of
                Some (d, mo, y) \<Rightarrow> Some (y @ ''-'' @ fmt02d (py_int mo) @ ''-'' @ fmt02d (py_int d))
              | None \<Rightarrow>
                  (case match_slash s of
                     Some (d, mo, y) \<Rightarrow>
                       (let y' = (if length y = 2
                                  then (if py_int y \<le> 69 then ''20'' @ y else ''19'' @ y)
                                  else y)
                        in Some (y' @ ''-'' @ fmt02d (py_int mo) @ ''-'' @ fmt02d (py_int d)))
                   | None \<Rightarrow>
                       (case strptime_b_d_Y s of
                          Some date \<Rightarrow> Some (strftime_Y_m_d date)
                        | None \<Rightarrow> map_option strftime_Y_m_d (strptime_b_d_Y (strip_weekday s)))))"

subsection \<open>Row parser\<close>

text \<open>
  Modelled from the spec: \<open>trim\<close> of \<open>app.utils.utils\<close>, which is not among the
  sources. The spec: given a string, trim surrounding whitespace.
\<close>

definition trim :: "string \<Rightarrow> string" where
  "trim s = strip s"

text \<open>
  The column map is a \<open>Dict[str, int]\<close>. \<open>cell_text\<close> and \<open>cell_link\<close> are the two
  local functions of \<open>_parse_row\<close>; \<open>not idx\<close> holds for a missing key and for 0.
\<close>

definition cell_text :: "node list \<Rightarrow> (string \<rightharpoonup> int) \<Rightarrow> string \<Rightarrow> error + string option" where
  "cell_text tds col_map col_key =
     (case col_map col_key of
        None \<Rightarrow> Inr None
      | Some idx \<Rightarrow>
          if idx = 0 \<or> idx > int (length tds) then Inr None
          else bind_result (py_index tds (idx - 1))
                 (\<lambda>td. Inr (Some (trim (join '' '' (xpath_texts td))))))"

definition cell_link :: "node list \<Rightarrow> (string \<rightharpoonup> int) \<Rightarrow> string \<Rightarrow> error + string option" where
  "cell_link tds col_map col_key =
     (case col_map col_key of
        None \<Rightarrow> Inr None
      | Some idx \<Rightarrow>
          if idx = 0 \<or> idx > int (length tds) then Inr None
          else bind_result (py_index tds (idx - 1))
                 (\<lambda>td. let hrefs = xpath_a_hrefs td
                       in Inr (if hrefs \<noteq> [] then Some (trim (hd hrefs)) else None)))"

text \<open>The player block: the mapped column, else the first player-profile anchor.\<close>

definition player_fields ::
  "node \<Rightarrow> node list \<Rightarrow> (string \<rightharpoonup> int) \<Rightarrow> error + (string option \<times> string option)" where
  "player_fields tr tds col_map =
     bind_result (cell_text tds col_map ''player'') (\<lambda>player_name.
     bind_result (cell_link tds col_map ''player'') (\<lambda>player_url.
       if \<not> truthy player_name \<or> \<not> truthy player_url
       then (let link = xpath_profile_hrefs tr
             in if link \<noteq> []
                then Inr (Some (trim (join '' '' (xpath_profile_texts tr))), Some (trim (hd link)))
                else Inr (player_name, player_url))
       else Inr (player_name, player_url)))"

text \<open>The club block. \<open>tds[idx - 1]\<close> is read here without the bound check.\<close>

definition club_fields ::
  "node list \<Rightarrow> (string \<rightharpoonup> int) \<Rightarrow> error + (string option \<times> string option)" where
  "club_fields tds col_map =
     (case col_map ''club'' of
        None \<Rightarrow> Inr (None, None)
      | Some idx \<Rightarrow>
          bind_result (cell_text tds col_map ''club'') (\<lambda>club_name.
          bind_result (cell_link tds col_map ''club'') (\<lambda>club_url.
            if \<not> truthy club_name
            then bind_result (py_index tds (idx - 1)) (\<lambda>cell.
                   let t = xpath_title_or_alt cell;
                       club_name' = (if t \<noteq> [] then Some (trim (hd t)) else club_name);
                       club_url' =
                         (if \<not> truthy club_url
                          then (let href = xpath_a_hrefs cell
                                in if href \<noteq> [] then Some (trim (hd href)) else None)
                          else club_url)
                   in Inr (club_name', club_url'))
            else Inr (club_name, club_url))))"

text \<open>
  The sibling fallback for the dates. The two \<open>next(sibs)\<close> calls and the assignments
  are in one \<open>try\<close>; \<open>StopIteration\<close> from either call skips all of them.
\<close>

definition sibling_dates ::
  "node \<Rightarrow> string option \<Rightarrow> string option \<Rightarrow> string option \<times> string option" where
  "sibling_dates tr since until =
     (if since = None \<or> until = None
      then (case xpath_links_first tr of
              [] \<Rightarrow> (since, until)
            | (injury_td, following) # _ \<Rightarrow>
                (case itersiblings_td following of
                   since_td # until_td # _ \<Rightarrow>
                     (let s_text = trim (join '' '' (xpath_texts since_td));
                          u_text = trim (join '' '' (xpath_texts until_td))
                      in (if since = None then normalize_date (Some s_text) else since,
                          if until = None then normalize_date (Some u_text) else until))
                 | _ \<Rightarrow> (since, until)))
      else (since, until))"

text \<open>\<open>_parse_row\<close>.\<close>

definition parse_row :: "env \<Rightarrow> node \<Rightarrow> (string \<rightharpoonup> int) \<Rightarrow> error + pyval option" where
  "parse_row env tr col_map =
     (let tds = xpath_child_td tr
      in if tds = [] then Inr None
         else
           bind_result (player_fields tr tds col_map) (\<lambda>(player_name, player_url).
           bind_result (club_fields tds col_map) (\<lambda>(club_name, club_url).
           bind_result (cell_text tds col_map ''injury'') (\<lambda>injury.
           bind_result (cell_text tds col_map ''since'') (\<lambda>since_text.
           bind_result (cell_text tds col_map ''until'') (\<lambda>until_text.
             case sibling_dates tr (normalize_date since_text) (normalize_date until_text) of
               (since, until) \<Rightarrow>
                 if \<not> (truthy player_name \<and> truthy injury) then Inr None
                 else Inr (Some (PDict
                   [(''player'', PDict
                      [(''id'', opt_str (extract_from_url env player_url)),
                       (''name'', opt_str player_name),
                       (''url'', opt_str player_url),
                       (''club'',
                          if truthy club_name \<or> truthy club_url
                          then PDict [(''id'', opt_str (extract_from_url env club_url)),
                                      (''name'', opt_str club_name)]
                          else PNone)]),
                    (''injury'', opt_str injury),
                    (''since'', opt_str since),
                    (''until'', opt_str until)]))))))))"

subsection \<open>Text normalizer and column mapper\<close>

text \<open>\<open>_norm_text\<close>.\<close>

definition norm_text :: "env \<Rightarrow> string option \<Rightarrow> string" where
  "norm_text env so =
     (case so of
        None \<Rightarrow> []
      | Some s0 \<Rightarrow>
          if s0 = [] then []
          else
            let s = normalize_NFKD env s0;
                s = filter (\<lambda>ch. combining env ch = 0) s;
                s = map py_lower (strip s);
                s = collapse_spaces False s;
                s = filter (\<lambda>c. isword c \<or> c = CHR '' '') s
            in s)"

text \<open>The alias table of \<open>_build_column_map\<close>, in the order of the dictionary.\<close>

definition variants :: "(string \<times> string list) list" where
  "variants =
     [(''player'', [''player'', ''spieler'']),
      (''club'', [''club'', ''verein'', ''team'', ''mannschaft'']),
      (''injury'', [''injury'', ''verletzung'']),
      (''since'', [''since'', ''seit'', ''from'', ''injury since'', ''date of injury'', ''out since'']),
      (''until'', [''until'', ''bis'', ''to'', ''return date'', ''back on'', ''out until'']),
      (''expectedreturn'',
         [''expected return'', ''erwartete r'' @ [CHR 0xFC] @ ''ckkehr'',
          ''voraussichtliche r'' @ [CHR 0xFC] @ ''ckkehr'', ''expected back'']),
      (''daysabsent'', [''days'', ''tage'', ''fehltage'']),
      (''gamesmissed'', [''games missed'', ''spiele verpasst'', ''spiele'']),
      (''notes'', [''note'', ''notes'', ''bemerkung'', ''anmerkung'']),
      (''position'', [''position'', ''pos.''])]"

text \<open>The local function \<open>canon\<close>: the first key whose aliases contain the header.\<close>

fun canon_in :: "(string \<times> string list) list \<Rightarrow> string \<Rightarrow> string option" where
  "canon_in [] h = None"
| "canon_in ((key, alts) # rest) h = (if h \<in> set alts then Some key else canon_in rest h)"

definition canon :: "string \<Rightarrow> string option" where
  "canon h = canon_in variants h"

text \<open>The headers of a table, normalized, in document order.\<close>

definition table_headers :: "env \<Rightarrow> node \<Rightarrow> string list" where
  "table_headers env table =
     map (\<lambda>h. norm_text env (Some (join '' '' (xpath_texts h)))) (xpath_thead_th table)"

text \<open>The loop over \<open>enumerate(headers, start=1)\<close>; \<open>if key\<close> asks for a non-empty key.\<close>

fun column_loop :: "(string \<rightharpoonup> int) \<Rightarrow> (nat \<times> string) list \<Rightarrow> (string \<rightharpoonup> int)" where
  "column_loop col_map [] = col_map"
| "column_loop col_map ((idx, raw) # rest) =
     column_loop (if truthy (canon raw) then col_map(the (canon raw) \<mapsto> int idx) else col_map) rest"

text \<open>\<open>_build_column_map\<close>.\<close>

definition build_column_map :: "env \<Rightarrow> node \<Rightarrow> (string \<rightharpoonup> int)" where
  "build_column_map env table = column_loop Map.empty (List.enumerate 1 (table_headers env table))"

subsection \<open>Page metadata\<close>

text \<open>\<open>_canonical_url\<close>.\<close>

definition canonical_url :: "node \<Rightarrow> string option" where
  "canonical_url doc =
     (let url = xpath_canonical doc in if url \<noteq> [] then Some (trim (hd url)) else None)"

text \<open>\<open>_guess_league_name\<close>.\<close>

definition guess_league_name :: "node \<Rightarrow> string option" where
  "guess_league_name doc =
     (let h1 = xpath_texts_under ''h1'' doc
      in if h1 \<noteq> [] then Some (trim (join '' '' h1))
         else
           let crumb = xpath_crumb_texts doc
           in if crumb \<noteq> [] then Some (trim (join '' '' crumb))
              else
                let t = xpath_texts_under ''title'' doc
                in if t \<noteq> [] then Some (trim (join '' '' t)) else None)"

subsection \<open>Orchestrator\<close>

text \<open>The loop of \<open>get_injuries\<close> over the rows; a parsed row is a non-empty dictionary.\<close>

fun parse_rows :: "env \<Rightarrow> (string \<rightharpoonup> int) \<Rightarrow> node list \<Rightarrow> error + pyval list" where
  "parse_rows env col_map [] = Inr []"
| "parse_rows env col_map (tr # trs) =
     bind_result (parse_row env tr col_map) (\<lambda>parsed.
     bind_result (parse_rows env col_map trs) (\<lambda>items.
       Inr (case parsed of None \<Rightarrow> items | Some d \<Rightarrow> d # items)))"

text \<open>
  \<open>get_injuries\<close>: the object with its \<open>response\<close> updated; the value returned to the
  caller is that \<open>response\<close>.
\<close>

definition get_injuries :: "env \<Rightarrow> service \<Rightarrow> error + service" where
  "get_injuries env self =
     bind_result (get_injuries_table (page self)) (\<lambda>table.
       let col_map = build_column_map env table;
           rows = xpath_tbody_rows table
       in bind_result (parse_rows env col_map rows) (\<lambda>items.
            let league_name = guess_league_name (page self);
                canonical = canonical_url (page self)
            in Inr (self\<lparr>response := (response self)
                      (''league'' \<mapsto> PDict [(''name'', opt_str league_name),
                                              (''url'', PStr (if truthy canonical then the canonical
                                                              else URL self))],
                       ''updatedAt'' \<mapsto> PStr (utcnow_isoformat env),
                       ''rows'' \<mapsto> PList items)\<rparr>)))"

subsection \<open>Fetch bootstrap\<close>




section \<open>Example inputs\<close>

text \<open>
  Collaborators for the examples: no network, a not-found guard that always raises, no
  identifiers, text that is already normalized, and a fixed clock.
\<close>

definition example_env :: env where
  "example_env =
     \<lparr>request_url_page = (\<lambda>url. Inl (ExternalError ''fetch failed'')),
      raise_exception_if_not_found = (\<lambda>xpath self. Some (ExternalError ''not found'')),
      extract_from_url = (\<lambda>url. None),
      normalize_NFKD = (\<lambda>s. s),
      combining = (\<lambda>ch. 0),
      check_bracketed_netloc = (\<lambda>netloc. None),
      utcnow_isoformat = ''2025-10-11T12:00:00+00:00''\<rparr>"

text \<open>A player cell, an injury cell marked \<open>links\<close>, and one or two date cells.\<close>

definition player_cell :: node where
  "player_cell =
     Elem ''td'' [(''class'', ''hauptlink'')]
       [Elem ''a'' [(''href'', ''/john-doe/profil/spieler/123'')] [Text ''John Doe'']]"

definition injury_cell :: node where
  "injury_cell = Elem ''td'' [(''class'', ''links'')] [Text ''Knee injury'']"

definition row_one_date :: node where
  "row_one_date =
     Elem ''tr'' [] [player_cell, injury_cell, Elem ''td'' [] [Text ''11.10.2025'']]"

definition row_two_dates :: node where
  "row_two_dates =
     Elem ''tr'' []
       [player_cell, injury_cell, Elem ''td'' [] [Text ''11.10.2025''],
        Elem ''td'' [] [Text ''Oct 20, 2025'']]"

text \<open>
  A page with a heading and an injuries table; the header names the player column
  twice, in English and in German, with an unknown column in between.
\<close>

definition injuries_table :: node where
  "injuries_table =
     Elem ''table'' [(''class'', ''items'')]
       [Elem ''thead'' []
          [Elem ''tr'' []
             [Elem ''th'' [] [Text ''Player''], Elem ''th'' [] [Text ''rating''],
              Elem ''th'' [] [Text ''spieler''], Elem ''th'' [] [Text ''injury'']]],
        Elem ''tbody'' []
          [Elem ''tr'' []
             [Elem ''td'' [] [Text ''1''], Elem ''td'' [] [Text ''7''], player_cell, injury_cell]]]"

definition example_page :: node where
  "example_page =
     Elem ''html'' []
       [Elem ''body'' [] [Elem ''h1'' [] [Text '' Championship ''], injuries_table]]"

definition example_service :: service where
  "example_service =
     \<lparr>URL = ''https://www.transfermarkt.com/championship/verletztespieler/wettbewerb/GB2/plus/1'',
      page = example_page,
      response = Map.empty\<rparr>"







section \<open>Properties\<close>

subsection \<open>Table locator\<close>

lemma marked_subset_header:
  "set (xpath_marked_header_tables doc) \<subseteq> set (xpath_header_tables doc)"
  by (auto simp: xpath_marked_header_tables_def xpath_header_tables_def)

lemma get_injuries_table_raises_iff:
  "(\<exists>e. get_injuries_table doc = Inl e) \<longleftrightarrow> xpath_header_tables doc = []"
proof -
  have "xpath_header_tables doc = [] \<Longrightarrow> xpath_marked_header_tables doc = []"
    using marked_subset_header [of doc] by simp
  then show ?thesis
    by (auto simp: get_injuries_table_def Let_def)
qed

text \<open>
  Claim C1. On a document in which neither query of the cascade finds a table,
  \<open>_get_injuries_table\<close> raises its not-found exception (the \<open>ValueError\<close> with the
  message below), so it yields no table and no partial result.
\<close>

theorem get_injuries_table_not_found:
  assumes "xpath_marked_header_tables doc = []"
    and "xpath_header_tables doc = []"
  shows "get_injuries_table doc = Inl (ValueError ''Injuries table not found on the page.'')"
  using assms by (simp add: get_injuries_table_def)

theorem get_injuries_table_not_found_witness:
  "xpath_marked_header_tables (Elem ''html'' [] [Elem ''body'' [] [Text ''no data'']]) = []
   \<and> xpath_header_tables (Elem ''html'' [] [Elem ''body'' [] [Text ''no data'']]) = []
   \<and> get_injuries_table (Elem ''html'' [] [Elem ''body'' [] [Text ''no data'']])
       = Inl (ValueError ''Injuries table not found on the page.'')"
proof -
  have a: "xpath_marked_header_tables (Elem ''html'' [] [Elem ''body'' [] [Text ''no data'']]) = []"
    by (simp add: xpath_marked_header_tables_def xpath_tables_def)
  have b: "xpath_header_tables (Elem ''html'' [] [Elem ''body'' [] [Text ''no data'']]) = []"
    by (simp add: xpath_header_tables_def xpath_tables_def)
  show ?thesis
    using a b get_injuries_table_not_found [OF a b] by simp
qed

subsection \<open>Date normalizer\<close>

text \<open>The examples of the documentation.\<close>

lemma normalize_date_iso: "normalize_date (Some ''2025-10-11'') = Some ''2025-10-11''"
  by code_simp

lemma normalize_date_dotted: "normalize_date (Some ''11.10.2025'') = Some ''2025-10-11''"
  by code_simp

lemma normalize_date_slash_short: "normalize_date (Some ''1/9/25'') = Some ''2025-09-01''"
  by code_simp

lemma normalize_date_slash_pivot:
  "normalize_date (Some ''1/9/69'') = Some ''2069-09-01''
   \<and> normalize_date (Some ''1/9/70'') = Some ''1970-09-01''"
  by code_simp

lemma normalize_date_slash_long: "normalize_date (Some ''01/09/2025'') = Some ''2025-09-01''"
  by code_simp

lemma normalize_date_month_name: "normalize_date (Some ''Oct 11, 2025'') = Some ''2025-10-11''"
  by code_simp

lemma normalize_date_weekday: "normalize_date (Some ''Sat, Oct 11, 2025'') = Some ''2025-10-11''"
  by code_simp

lemma normalize_date_placeholders:
  "normalize_date None = None \<and> normalize_date (Some []) = None
   \<and> normalize_date (Some ''-'') = None \<and> normalize_date (Some ''?'') = None
   \<and> normalize_date (Some ''unknown'') = None \<and> normalize_date (Some ''Unknown'') = None"
  by (simp add: normalize_date_def)

lemma normalize_date_unparseable: "normalize_date (Some ''next week'') = None"
  by code_simp

text \<open>
  Claim C2. A slash-separated date with a three-digit year is none of the documented
  forms, and \<open>_normalize_date\<close> does not answer \<open>None\<close> for it: the pattern
  \<open>\d{2,4}\<close> admits the year and the result is not of the form YYYY-MM-DD.
\<close>

theorem normalize_date_three_digit_year:
  "normalize_date (Some ''1/9/202'') = Some ''202-09-01''"
  by code_simp

subsection \<open>Row parser\<close>

lemma cell_text_out_of_range:
  assumes "col_map key = None \<or> (\<exists>idx. col_map key = Some idx \<and> idx > int (length tds))"
  shows "cell_text tds col_map key = Inr None"
  using assms by (auto simp: cell_text_def)

lemma cell_link_out_of_range:
  assumes "col_map key = None \<or> (\<exists>idx. col_map key = Some idx \<and> idx > int (length tds))"
  shows "cell_link tds col_map key = Inr None"
  using assms by (auto simp: cell_link_def)

text \<open>
  Claim C10. The row has three cells and the column map sends \<open>club\<close> to column 4.
  \<open>cell_text\<close> and \<open>cell_link\<close> answer \<open>None\<close> for the club, and then the club block
  reads \<open>tds[idx - 1]\<close> without their bound check: \<open>_parse_row\<close> raises \<open>IndexError\<close>.
\<close>

theorem parse_row_club_index_error:
  "cell_text (xpath_child_td row_one_date) [''player'' \<mapsto> 1, ''injury'' \<mapsto> 2, ''club'' \<mapsto> 4] ''club''
     = Inr None
   \<and> cell_link (xpath_child_td row_one_date) [''player'' \<mapsto> 1, ''injury'' \<mapsto> 2, ''club'' \<mapsto> 4] ''club''
     = Inr None
   \<and> parse_row example_env row_one_date [''player'' \<mapsto> 1, ''injury'' \<mapsto> 2, ''club'' \<mapsto> 4]
     = Inl IndexError"
  by code_simp

text \<open>
  Claim C5. On the row of two cells below, the player name and the injury are both
  non-empty, and \<open>_parse_row\<close> returns neither a record nor \<open>None\<close>: the column map
  sends \<open>club\<close> to column 3 and the club block raises \<open>IndexError\<close> before the
  acceptance rule is reached.
\<close>

theorem parse_row_accepts_not_reached:
  "cell_text [player_cell, injury_cell] [''player'' \<mapsto> 1, ''injury'' \<mapsto> 2, ''club'' \<mapsto> 3] ''player''
     = Inr (Some ''John Doe'')
   \<and> cell_text [player_cell, injury_cell] [''player'' \<mapsto> 1, ''injury'' \<mapsto> 2, ''club'' \<mapsto> 3] ''injury''
     = Inr (Some ''Knee injury'')
   \<and> xpath_child_td (Elem ''tr'' [] [player_cell, injury_cell]) = [player_cell, injury_cell]
   \<and> parse_row example_env (Elem ''tr'' [] [player_cell, injury_cell])
        [''player'' \<mapsto> 1, ''injury'' \<mapsto> 2, ''club'' \<mapsto> 3]
     = Inl IndexError"
  by code_simp

text \<open>The sibling fallback in one formula: it acts only when two siblings exist.\<close>

lemma sibling_dates_links:
  assumes "xpath_links_first tr = (cell, following) # others"
    and "sibs = itersiblings_td following"
  shows "sibling_dates tr since until =
           (if 2 \<le> length sibs \<and> since = None
            then normalize_date (Some (trim (join '' '' (xpath_texts (sibs ! 0))))) else since,
            if 2 \<le> length sibs \<and> until = None
            then normalize_date (Some (trim (join '' '' (xpath_texts (sibs ! 1))))) else until)"
proof (cases sibs)
  case Nil
  with assms show ?thesis by (simp add: sibling_dates_def)
next
  case (Cons a rest)
  show ?thesis
  proof (cases rest)
    case Nil
    with Cons assms show ?thesis by (simp add: sibling_dates_def)
  next
    case (Cons b rest')
    with \<open>sibs = a # rest\<close> assms show ?thesis
      by (auto simp: sibling_dates_def Let_def)
  qed
qed

lemma sibling_dates_no_links:
  assumes "xpath_links_first tr = []"
  shows "sibling_dates tr since until = (since, until)"
  using assms by (simp add: sibling_dates_def)

text \<open>The dates of a returned record are those the sibling fallback leaves.\<close>

lemma parse_row_record_dates:
  assumes "parse_row env tr col_map = Inr (Some r)"
    and "cell_text (xpath_child_td tr) col_map ''since'' = Inr s0"
    and "cell_text (xpath_child_td tr) col_map ''until'' = Inr u0"
  shows "pget r ''since'' = Some (opt_str (fst (sibling_dates tr (normalize_date s0) (normalize_date u0))))
       \<and> pget r ''until'' = Some (opt_str (snd (sibling_dates tr (normalize_date s0) (normalize_date u0))))"
  using assms
  by (auto simp: parse_row_def Let_def bind_result_def
           split: if_splits sum.splits prod.splits)

text \<open>
  Claim C4, amended. When a date is unresolved after the mapped columns and the row has a
  \<open>links\<close> cell, the next two \<open>td\<close> siblings of the first such cell give \<open>since\<close> and
  \<open>until\<close> (each only if it is unresolved), provided both siblings exist. With fewer
  than two siblings the fallback changes nothing: both dates stay as the mapped columns
  gave them. The fallback is a total function: it cannot raise.
\<close>

theorem parse_row_sibling_fallback:
  assumes "parse_row env tr col_map = Inr (Some r)"
    and "cell_text (xpath_child_td tr) col_map ''since'' = Inr s0"
    and "cell_text (xpath_child_td tr) col_map ''until'' = Inr u0"
    and "normalize_date s0 = None \<or> normalize_date u0 = None"
    and "xpath_links_first tr = (cell, following) # others"
    and "sibs = itersiblings_td following"
  shows "(2 \<le> length sibs \<longrightarrow>
            pget r ''since'' =
              Some (opt_str (if normalize_date s0 = None
                             then normalize_date (Some (trim (join '' '' (xpath_texts (sibs ! 0)))))
                             else normalize_date s0))
          \<and> pget r ''until'' =
              Some (opt_str (if normalize_date u0 = None
                             then normalize_date (Some (trim (join '' '' (xpath_texts (sibs ! 1)))))
                             else normalize_date u0)))
       \<and> (length sibs < 2 \<longrightarrow>
            pget r ''since'' = Some (opt_str (normalize_date s0))
          \<and> pget r ''until'' = Some (opt_str (normalize_date u0)))"
  using parse_row_record_dates [OF assms(1) assms(2) assms(3)]
        sibling_dates_links [OF assms(5) assms(6), of "normalize_date s0" "normalize_date u0"]
  by auto

theorem parse_row_sibling_fallback_witness:
  "parse_row example_env row_two_dates [''player'' \<mapsto> 1, ''injury'' \<mapsto> 2]
     = Inr (Some (PDict
         [(''player'', PDict [(''id'', PNone), (''name'', PStr ''John Doe''),
                              (''url'', PStr ''/john-doe/profil/spieler/123''), (''club'', PNone)]),
          (''injury'', PStr ''Knee injury''),
          (''since'', PStr ''2025-10-11''),
          (''until'', PStr ''2025-10-20'')]))
   \<and> cell_text (xpath_child_td row_two_dates) [''player'' \<mapsto> 1, ''injury'' \<mapsto> 2] ''since'' = Inr None
   \<and> cell_text (xpath_child_td row_two_dates) [''player'' \<mapsto> 1, ''injury'' \<mapsto> 2] ''until'' = Inr None
   \<and> xpath_links_first row_two_dates
       = [(injury_cell, [Elem ''td'' [] [Text ''11.10.2025''], Elem ''td'' [] [Text ''Oct 20, 2025'']])]
   \<and> normalize_date (Some (trim (join '' '' (xpath_texts (Elem ''td'' [] [Text ''11.10.2025''])))))
       = Some ''2025-10-11''
   \<and> normalize_date (Some (trim (join '' '' (xpath_texts (Elem ''td'' [] [Text ''Oct 20, 2025''])))))
       = Some ''2025-10-20''"
proof -
  let ?cm = "[''player'' \<mapsto> 1, ''injury'' \<mapsto> (2::int)]"
  let ?r = "PDict
         [(''player'', PDict [(''id'', PNone), (''name'', PStr ''John Doe''),
                              (''url'', PStr ''/john-doe/profil/spieler/123''), (''club'', PNone)]),
          (''injury'', PStr ''Knee injury''),
          (''since'', PStr ''2025-10-11''),
          (''until'', PStr ''2025-10-20'')]"
  let ?sibs = "[Elem ''td'' [] [Text ''11.10.2025''], Elem ''td'' [] [Text ''Oct 20, 2025'']]"
  have a: "parse_row example_env row_two_dates ?cm = Inr (Some ?r)"
    by code_simp
  have b: "cell_text (xpath_child_td row_two_dates) ?cm ''since'' = Inr None"
    by code_simp
  have c: "cell_text (xpath_child_td row_two_dates) ?cm ''until'' = Inr None"
    by code_simp
  have d: "normalize_date None = None \<or> normalize_date None = None"
    by (simp add: normalize_date_def)
  have e: "xpath_links_first row_two_dates = (injury_cell, ?sibs) # []"
    by code_simp
  have f: "?sibs = itersiblings_td ?sibs"
    by code_simp
  have g: "normalize_date (Some (trim (join '' '' (xpath_texts (Elem ''td'' [] [Text ''11.10.2025''])))))
       = Some ''2025-10-11''"
    by code_simp
  have h: "normalize_date (Some (trim (join '' '' (xpath_texts (Elem ''td'' [] [Text ''Oct 20, 2025''])))))
       = Some ''2025-10-20''"
    by code_simp
  from parse_row_sibling_fallback [OF a b c d e f] a b c e g h
  show ?thesis by simp
qed

text \<open>
  The claim as it was stated fails on a row with one sibling after the \<open>links\<close> cell:
  the sibling holds a date, and \<open>since\<close> is not taken from it.
\<close>

theorem parse_row_one_sibling_counterexample:
  "xpath_links_first row_one_date = [(injury_cell, [Elem ''td'' [] [Text ''11.10.2025'']])]
   \<and> itersiblings_td [Elem ''td'' [] [Text ''11.10.2025'']] = [Elem ''td'' [] [Text ''11.10.2025'']]
   \<and> normalize_date (Some (trim (join '' '' (xpath_texts (Elem ''td'' [] [Text ''11.10.2025''])))))
       = Some ''2025-10-11''
   \<and> parse_row example_env row_one_date [''player'' \<mapsto> 1, ''injury'' \<mapsto> 2]
       = Inr (Some (PDict
           [(''player'', PDict [(''id'', PNone), (''name'', PStr ''John Doe''),
                                (''url'', PStr ''/john-doe/profil/spieler/123''), (''club'', PNone)]),
            (''injury'', PStr ''Knee injury''),
            (''since'', PNone),
            (''until'', PNone)]))"
  by code_simp

subsection \<open>Orchestrator\<close>

text \<open>
  Claim C6, amended. A successful \<open>get_injuries\<close> stores the current UTC time under
  the key \<open>updatedAt\<close>, next to \<open>league\<close> (a dictionary of \<open>name\<close> and \<open>url\<close>) and
  \<open>rows\<close>; every other key of the response, \<open>generatedAt\<close> among them, is left as it
  was.
\<close>

theorem get_injuries_response:
  assumes "get_injuries env self = Inr self'"
  shows "response self' ''updatedAt'' = Some (PStr (utcnow_isoformat env))
       \<and> (\<exists>url. response self' ''league''
                  = Some (PDict [(''name'', opt_str (guess_league_name (page self))),
                                 (''url'', PStr url)]))
       \<and> (\<exists>items. response self' ''rows'' = Some (PList items))
       \<and> (\<forall>k. k \<notin> {''league'', ''updatedAt'', ''rows''} \<longrightarrow> response self' k = response self k)"
  using assms
  by (auto simp: get_injuries_def Let_def bind_result_def split: sum.splits)

theorem get_injuries_response_witness:
  "\<not> isl (get_injuries example_env example_service)
   \<and> response (projr (get_injuries example_env example_service)) ''updatedAt''
       = Some (PStr ''2025-10-11T12:00:00+00:00'')
   \<and> response (projr (get_injuries example_env example_service)) ''league''
       = Some (PDict [(''name'', PStr ''Championship''),
                      (''url'', PStr ''https://www.transfermarkt.com/championship/verletztespieler/wettbewerb/GB2/plus/1'')])
   \<and> response (projr (get_injuries example_env example_service)) ''generatedAt'' = None"
proof -
  have ok: "\<not> isl (get_injuries example_env example_service)"
    by code_simp
  then obtain s where s: "get_injuries example_env example_service = Inr s"
    by (cases "get_injuries example_env example_service") auto
  have now: "utcnow_isoformat example_env = ''2025-10-11T12:00:00+00:00''"
    by (simp add: example_env_def)
  have old: "response example_service ''generatedAt'' = None"
    by (simp add: example_service_def)
  have league: "response (projr (get_injuries example_env example_service)) ''league''
       = Some (PDict [(''name'', PStr ''Championship''),
                      (''url'', PStr ''https://www.transfermarkt.com/championship/verletztespieler/wettbewerb/GB2/plus/1'')])"
    by code_simp
  from get_injuries_response [OF s] s ok now old league
  show ?thesis by simp
qed

text \<open>
  The claim as it was stated fails: after a successful extraction on an object whose
  response was empty, there is no key \<open>generatedAt\<close>; the time stands under
  \<open>updatedAt\<close>.
\<close>

theorem get_injuries_generatedAt_counterexample:
  "\<not> isl (get_injuries example_env example_service)
   \<and> response (projr (get_injuries example_env example_service)) ''generatedAt'' = None
   \<and> response (projr (get_injuries example_env example_service)) ''updatedAt''
       = Some (PStr ''2025-10-11T12:00:00+00:00'')"
  by code_simp

lemma get_injuries_example_rows:
  "response (projr (get_injuries example_env example_service)) ''rows''
     = Some (PList [PDict
         [(''player'', PDict [(''id'', PNone), (''name'', PStr ''John Doe''),
                              (''url'', PStr ''/john-doe/profil/spieler/123''), (''club'', PNone)]),
          (''injury'', PStr ''Knee injury''),
          (''since'', PNone),
          (''until'', PNone)]])"
  by code_simp

subsection \<open>Column mapper\<close>

lemma canon_in_key_nonempty:
  assumes "canon_in vs h = Some key" and "\<forall>(k, alts) \<in> set vs. k \<noteq> []"
  shows "key \<noteq> []"
  using assms by (induction vs) (auto split: if_splits)

lemma canon_truthy: "truthy (canon h) \<longleftrightarrow> canon h \<noteq> None"
proof (cases "canon h")
  case None
  then show ?thesis by simp
next
  case (Some key)
  have "\<forall>(k, alts) \<in> set variants. k \<noteq> []"
    by (simp add: variants_def)
  with Some have "key \<noteq> []"
    unfolding canon_def by (rule canon_in_key_nonempty)
  with Some show ?thesis by simp
qed

text \<open>
  The alias sets are disjoint: a header is sent to a field exactly when it is one of the
  aliases of the field.
\<close>

lemma canon_in_member:
  assumes "canon_in vs h = Some key"
  shows "\<exists>alts. (key, alts) \<in> set vs \<and> h \<in> set alts"
  using assms by (induction vs) (auto split: if_splits)

lemma canon_in_iff:
  assumes "distinct (map fst vs)"
    and "\<forall>v1 \<in> set vs. \<forall>v2 \<in> set vs. fst v1 \<noteq> fst v2 \<longrightarrow> set (snd v1) \<inter> set (snd v2) = {}"
    and "(key, alts) \<in> set vs"
  shows "canon_in vs h = Some key \<longleftrightarrow> h \<in> set alts"
  using assms
proof (induction vs)
  case Nil
  then show ?case by simp
next
  case (Cons v vs)
  obtain k a where v: "v = (k, a)" by (cases v)
  from Cons.prems v have dk: "distinct (map fst vs)" and knew: "k \<notin> fst ` set vs"
    by auto
  from Cons.prems(2) have dj: "\<forall>v1 \<in> set vs. \<forall>v2 \<in> set vs. fst v1 \<noteq> fst v2 \<longrightarrow> set (snd v1) \<inter> set (snd v2) = {}"
    by auto
  show ?case
  proof (cases "(key, alts) = (k, a)")
    case True
    have "canon_in vs h \<noteq> Some k"
    proof
      assume "canon_in vs h = Some k"
      from canon_in_member [OF this] knew show False by force
    qed
    with True v show ?thesis by auto
  next
    case False
    with Cons.prems(3) v have mem: "(key, alts) \<in> set vs" by auto
    with knew have ne: "key \<noteq> k" by force
    have disj: "set a \<inter> set alts = {}"
    proof -
      have "(k, a) \<in> set (v # vs)" and "(key, alts) \<in> set (v # vs)"
        using v mem by simp_all
      with Cons.prems(2) ne show ?thesis by fastforce
    qed
    show ?thesis
    proof (cases "h \<in> set a")
      case True
      with disj have "h \<notin> set alts" by auto
      with True ne v show ?thesis by auto
    next
      case False
      with v Cons.IH [OF dk dj mem] show ?thesis by simp
    qed
  qed
qed

lemma variants_keys_distinct: "distinct (map fst variants)"
  by (simp add: variants_def)

lemma variants_disjoint:
  "\<forall>v1 \<in> set variants. \<forall>v2 \<in> set variants. fst v1 \<noteq> fst v2 \<longrightarrow> set (snd v1) \<inter> set (snd v2) = {}"
  by code_simp

lemma canon_iff_alias:
  assumes "(key, alts) \<in> set variants"
  shows "canon h = Some key \<longleftrightarrow> h \<in> set alts"
  unfolding canon_def
  by (rule canon_in_iff [OF variants_keys_distinct variants_disjoint assms])

lemma column_loop_append:
  "column_loop m (xs @ ys) = column_loop (column_loop m xs) ys"
  by (induction xs arbitrary: m) auto

lemma column_loop_no_match:
  assumes "\<forall>(idx, raw) \<in> set xs. canon raw \<noteq> Some key"
  shows "column_loop m xs key = m key"
  using assms
proof (induction xs arbitrary: m)
  case Nil
  then show ?case by simp
next
  case (Cons x xs)
  obtain idx raw where x: "x = (idx, raw)" by (cases x)
  from Cons.prems x have ne: "canon raw \<noteq> Some key" and rest: "\<forall>(idx, raw) \<in> set xs. canon raw \<noteq> Some key"
    by auto
  show ?case
  proof (cases "canon raw")
    case None
    with x Cons.IH [OF rest] show ?thesis by simp
  next
    case (Some k)
    with ne have "k \<noteq> key" by simp
    with x Some Cons.IH [OF rest] show ?thesis by auto
  qed
qed

lemma column_loop_skips_unmatched:
  "column_loop m xs = column_loop m (filter (\<lambda>(idx, raw). canon raw \<noteq> None) xs)"
  by (induction xs arbitrary: m) (auto simp: canon_truthy)

lemma column_loop_last_match:
  assumes "i < length hs" and "canon (hs ! i) = Some key"
    and "\<forall>j. i < j \<and> j < length hs \<longrightarrow> canon (hs ! j) \<noteq> Some key"
  shows "column_loop m (List.enumerate n hs) key = Some (int (n + i))"
proof -
  let ?pre = "take i hs" and ?post = "drop (Suc i) hs"
  have split: "hs = ?pre @ (hs ! i) # ?post"
    using assms(1) by (simp add: id_take_nth_drop)
  have len: "length ?pre = i"
    using assms(1) by simp
  have enum: "List.enumerate n hs
                = List.enumerate n ?pre @ (n + i, hs ! i) # List.enumerate (Suc (n + i)) ?post"
    using len by (subst split) (simp add: enumerate_append_eq)
  have post: "\<forall>(idx, raw) \<in> set (List.enumerate (Suc (n + i)) ?post). canon raw \<noteq> Some key"
  proof -
    have "canon raw \<noteq> Some key" if "raw \<in> set ?post" for raw
    proof -
      from that obtain k where k: "k < length ?post" "raw = ?post ! k"
        by (auto simp: in_set_conv_nth)
      then have "raw = hs ! (Suc i + k)" and "Suc i + k < length hs"
        by auto
      with assms(3) show ?thesis by auto
    qed
    moreover have "snd ` set (List.enumerate (Suc (n + i)) ?post) = set ?post"
      by (simp flip: set_map)
    ultimately show ?thesis
      by force
  qed
  have key: "key \<noteq> []"
    using assms(2) canon_truthy [of "hs ! i"] by auto
  have "column_loop m (List.enumerate n hs) key
          = column_loop (column_loop m (List.enumerate n ?pre)) ((n + i, hs ! i) # List.enumerate (Suc (n + i)) ?post) key"
    by (simp add: enum column_loop_append)
  also have "\<dots> = column_loop ((column_loop m (List.enumerate n ?pre))(key \<mapsto> int (n + i)))
                      (List.enumerate (Suc (n + i)) ?post) key"
    using assms(2) key by simp
  also have "\<dots> = Some (int (n + i))"
    using column_loop_no_match [OF post] by simp
  finally show ?thesis .
qed

text \<open>
  Claim C7. When headers of a table match the alias set of a field, the column map sends
  the field to the position (counted from 1) of the last of them; headers that match no
  alias set take no part in the map.
\<close>

theorem build_column_map_last_match_wins:
  assumes "hs = table_headers env table"
    and "(key, alts) \<in> set variants"
    and "i < length hs" and "hs ! i \<in> set alts"
    and "\<forall>j. i < j \<and> j < length hs \<longrightarrow> hs ! j \<notin> set alts"
  shows "build_column_map env table key = Some (int i + 1)
       \<and> build_column_map env table
           = column_loop Map.empty (filter (\<lambda>(idx, raw). canon raw \<noteq> None) (List.enumerate 1 hs))"
proof -
  have a: "canon (hs ! i) = Some key"
    using assms(2) assms(4) by (simp add: canon_iff_alias)
  have b: "\<forall>j. i < j \<and> j < length hs \<longrightarrow> canon (hs ! j) \<noteq> Some key"
    using assms(2) assms(5) by (simp add: canon_iff_alias)
  have "build_column_map env table key = Some (int (1 + i))"
    unfolding build_column_map_def assms(1) [symmetric]
    by (rule column_loop_last_match [OF assms(3) a b])
  moreover have "build_column_map env table
           = column_loop Map.empty (filter (\<lambda>(idx, raw). canon raw \<noteq> None) (List.enumerate 1 hs))"
    unfolding build_column_map_def assms(1) [symmetric]
    by (rule column_loop_skips_unmatched)
  ultimately show ?thesis by simp
qed

theorem build_column_map_last_match_wins_witness:
  "table_headers example_env injuries_table = [''player'', ''rating'', ''spieler'', ''injury'']
   \<and> (''player'', [''player'', ''spieler'']) \<in> set variants
   \<and> canon ''rating'' = None
   \<and> build_column_map example_env injuries_table ''player'' = Some 3
   \<and> build_column_map example_env injuries_table
       = column_loop Map.empty [(1, ''player''), (3, ''spieler''), (4, ''injury'')]"
proof -
  let ?hs = "[''player'', ''rating'', ''spieler'', ''injury'']"
  have a: "?hs = table_headers example_env injuries_table"
    by code_simp
  have b: "(''player'', [''player'', ''spieler'']) \<in> set variants"
    by (simp add: variants_def)
  have c: "(2::nat) < length ?hs"
    by simp
  have d: "?hs ! 2 \<in> set [''player'', ''spieler'']"
    by simp
  have e: "\<forall>j. 2 < j \<and> j < length ?hs \<longrightarrow> ?hs ! j \<notin> set [''player'', ''spieler'']"
  proof (intro allI impI)
    fix j :: nat
    assume "2 < j \<and> j < length ?hs"
    then have "j = 3" by simp
    then show "?hs ! j \<notin> set [''player'', ''spieler'']" by simp
  qed
  have f: "canon ''rating'' = None"
    by code_simp
  have g: "filter (\<lambda>(idx, raw). canon raw \<noteq> None) (List.enumerate 1 ?hs)
             = [(1, ''player''), (3, ''spieler''), (4, ''injury'')]"
    by code_simp
  note last_wins = build_column_map_last_match_wins [OF a b c d e]
  have h1: "build_column_map example_env injuries_table ''player'' = Some 3"
    using conjunct1 [OF last_wins] by simp
  have h2: "build_column_map example_env injuries_table
       = column_loop Map.empty [(1, ''player''), (3, ''spieler''), (4, ''injury'')]"
    using conjunct2 [OF last_wins] unfolding g .
  from a [symmetric] b f h1 h2 show ?thesis
    by (intro conjI) assumption+
qed

subsection \<open>Fetch bootstrap\<close>












subsection \<open>Construction, then the table locator\<close>






subsection \<open>The richer URL variant\<close>














































end
